theory Spec2Isabelle
  imports Complex_Main
begin

section \<open>Strings\<close>

text \<open>
  Text is modelled as \<^typ>\<open>string\<close>, restricted to ASCII: \<open>toLowerCase\<close> maps the letters
  \<open>A\<close> to \<open>Z\<close> and leaves every other character alone, and \<open>trim\<close> strips the ASCII white
  space and line terminators (tab, line feed, vertical tab, form feed, carriage return, space).
\<close>

definition toLowerChar :: "char \<Rightarrow> char" where
  "toLowerChar c =
     (case map_of (zip ''ABCDEFGHIJKLMNOPQRSTUVWXYZ'' ''abcdefghijklmnopqrstuvwxyz'') c of
        Some l \<Rightarrow> l
      | None \<Rightarrow> c)"

definition toLowerCase :: "string \<Rightarrow> string" where
  "toLowerCase s = map toLowerChar s"

definition isWhiteSpace :: "char \<Rightarrow> bool" where
  "isWhiteSpace c = (c \<in> set [CHR 0x09, CHR 0x0A, CHR 0x0B, CHR 0x0C, CHR 0x0D, CHR '' ''])"

definition trim :: "string \<Rightarrow> string" where
  "trim s = rev (dropWhile isWhiteSpace (rev (dropWhile isWhiteSpace s)))"

definition startsWith :: "string \<Rightarrow> string \<Rightarrow> bool" where
  "startsWith p s = (take (length p) s = p)"

text \<open>\<open>s.includes(p)\<close>: \<open>p\<close> occurs somewhere in \<open>s\<close>.\<close>

fun includes_str :: "string \<Rightarrow> string \<Rightarrow> bool" where
  "includes_str p [] = (p = [])"
| "includes_str p (c # cs) = (startsWith p (c # cs) \<or> includes_str p cs)"

text \<open>\<open>xs.join(sep)\<close> on an array of strings.\<close>

fun join :: "string \<Rightarrow> string list \<Rightarrow> string" where
  "join sep [] = []"
| "join sep [x] = x"
| "join sep (x # y # ys) = x @ sep @ join sep (y # ys)"

section \<open>Errors\<close>

text \<open>
  Every exception the code throws or lets through is a value of this type. A failure of an
  external call carries the message of the remote error, which \<open>addToPlaylist\<close> inspects.
\<close>

datatype error =
    TypeError
  | GoogleAuthFailed
  | CreatePlaylistFailed
  | VideoNotFound
  | PlaylistNotAccessible
  | RemoteError string

section \<open>The tenant store\<close>

text \<open>The \<open>User\<close> row of the store, with the fields the bot reads and writes.\<close>

record user =
  user_id :: string
  twitchUserId :: string
  twitchUsername :: string
  twitchAccessToken :: string
  twitchRefreshToken :: string
  googleRefreshToken :: "string option"
  youtubePlaylistId :: "string option"
  playlistName :: string
  isActive :: bool

section \<open>The roster reconciler\<close>

text \<open>
  The interval callback of \<open>main\<close> closes over the \<open>channels\<close> array, the auth provider and
  the chat client. Its state is the array and the calls issued so far; which remote calls
  fail is a parameter \<open>fails\<close> of the environment. A call is recorded when it is issued,
  whether or not it then fails.
\<close>

datatype chat_call =
    AddUser string string string
  | Join string
  | Part string

record roster =
  channels :: "string list"
  issued :: "chat_call list"

definition issue :: "chat_call \<Rightarrow> roster \<Rightarrow> roster" where
  "issue c r = r\<lparr>issued := issued r @ [c]\<rparr>"

text \<open>
  The first loop, lines 260 to 279: for each active user whose channel is not in the array,
  \<open>addUser\<close>, \<open>join\<close> and \<open>push\<close> inside one \<open>try\<close>; the \<open>catch\<close> logs and the loop
  goes on with the next user.
\<close>

fun join_loop :: "(chat_call \<Rightarrow> bool) \<Rightarrow> user list \<Rightarrow> roster \<Rightarrow> roster" where
  "join_loop fails [] r = r"
| "join_loop fails (u # us) r =
     (if twitchUsername u \<notin> set (channels r) then
        (let add = AddUser (twitchUserId u) (twitchAccessToken u) (twitchRefreshToken u);
             r1 = issue add r
         in if fails add then join_loop fails us r1
            else
              (let r2 = issue (Join (twitchUsername u)) r1
               in if fails (Join (twitchUsername u)) then join_loop fails us r2
                  else join_loop fails us (r2\<lparr>channels := channels r2 @ [twitchUsername u]\<rparr>)))
      else join_loop fails us r)"

text \<open>\<open>xs.indexOf(x)\<close>, with \<open>None\<close> for \<open>-1\<close>, and \<open>xs.splice(i, 1)\<close>.\<close>

fun indexOf :: "'a list \<Rightarrow> 'a \<Rightarrow> nat option" where
  "indexOf [] x = None"
| "indexOf (y # ys) x = (if y = x then Some 0 else map_option Suc (indexOf ys x))"

definition splice1 :: "nat \<Rightarrow> 'a list \<Rightarrow> 'a list" where
  "splice1 i xs = take i xs @ drop (Suc i) xs"

text \<open>
  The second loop, lines 282 to 292: \<open>for (const channel of channels)\<close> walks the array by
  index and reads its length anew at every step, while the body removes elements from
  it. \<open>part\<close> is awaited outside any \<open>try\<close>: when it fails the rejection leaves the callback,
  which is the \<open>Some\<close> result here, and the loop is over.
\<close>

function part_loop ::
  "(chat_call \<Rightarrow> bool) \<Rightarrow> user list \<Rightarrow> nat \<Rightarrow> roster \<Rightarrow> error option \<times> roster" where
  "part_loop fails currentUsers i r =
     (if i < length (channels r) then
        (let channel = channels r ! i
         in case find (\<lambda>u. twitchUsername u = channel) currentUsers of
              Some u \<Rightarrow> part_loop fails currentUsers (Suc i) r
            | None \<Rightarrow>
                (let r1 = issue (Part channel) r
                 in if fails (Part channel) then (Some (RemoteError ''part''), r1)
                    else
                      (case indexOf (channels r1) channel of
                         Some idx \<Rightarrow>
                           part_loop fails currentUsers (Suc i)
                             (r1\<lparr>channels := splice1 idx (channels r1)\<rparr>)
                       | None \<Rightarrow> part_loop fails currentUsers (Suc i) r1)))
      else (None, r))"
  by pat_completeness auto
termination
  by (relation "measure (\<lambda>(fails, currentUsers, i, r). length (channels r) - i)")
     (auto simp: issue_def splice1_def)

declare part_loop.simps [simp del]

text \<open>One tick over the rows of the store: \<open>findMany\<close> with \<open>isActive: true\<close>, then the two
  loops.\<close>

definition tick :: "(chat_call \<Rightarrow> bool) \<Rightarrow> user list \<Rightarrow> roster \<Rightarrow> error option \<times> roster" where
  "tick fails rows r =
     (let currentUsers = filter isActive rows
      in part_loop fails currentUsers 0 (join_loop fails currentUsers r))"

section \<open>Dynamic values\<close>

text \<open>
  The catalog's search results are untyped (\<open>any\<close>). The values that occur in such a payload:
  \<open>undefined\<close>, \<open>null\<close>, booleans, strings, arrays and plain objects.
\<close>

datatype js =
    JUndefined
  | JNull
  | JBool bool
  | JStr string
  | JArr "js list"
  | JObj "(string \<times> js) list"

fun truthy :: "js \<Rightarrow> bool" where
  "truthy JUndefined = False"
| "truthy JNull = False"
| "truthy (JBool b) = b"
| "truthy (JStr s) = (s \<noteq> [])"
| "truthy (JArr xs) = True"
| "truthy (JObj kvs) = True"

fun nullish :: "js \<Rightarrow> bool" where
  "nullish JUndefined = True"
| "nullish JNull = True"
| "nullish v = False"

text \<open>\<open>x.k\<close>: a \<open>TypeError\<close> on \<open>undefined\<close> and \<open>null\<close>, \<open>undefined\<close> where there is no such
  property.\<close>

fun getProp :: "js \<Rightarrow> string \<Rightarrow> error + js" where
  "getProp JUndefined k = Inl TypeError"
| "getProp JNull k = Inl TypeError"
| "getProp (JObj kvs) k = Inr (case map_of kvs k of Some v \<Rightarrow> v | None \<Rightarrow> JUndefined)"
| "getProp v k = Inr JUndefined"

text \<open>\<open>String(x)\<close>, as a template literal and \<open>join\<close> apply it; \<open>join\<close> writes \<open>undefined\<close>
  and \<open>null\<close> elements as the empty string.\<close>

fun toString :: "js \<Rightarrow> string" where
  "toString JUndefined = ''undefined''"
| "toString JNull = ''null''"
| "toString (JBool b) = (if b then ''true'' else ''false'')"
| "toString (JStr s) = s"
| "toString (JArr xs) = join '','' (map (\<lambda>x. if nullish x then [] else toString x) xs)"
| "toString (JObj kvs) = ''[object Object]''"

definition joinJs :: "string \<Rightarrow> js list \<Rightarrow> string" where
  "joinJs sep xs = join sep (map (\<lambda>x. if nullish x then [] else toString x) xs)"

text \<open>A loop body that may throw, run over an array from the left: the first error ends it.\<close>

fun mapE :: "('a \<Rightarrow> error + 'b) \<Rightarrow> 'a list \<Rightarrow> error + 'b list" where
  "mapE f [] = Inr []"
| "mapE f (x # xs) =
     (case f x of
        Inl e \<Rightarrow> Inl e
      | Inr y \<Rightarrow> (case mapE f xs of Inl e \<Rightarrow> Inl e | Inr ys \<Rightarrow> Inr (y # ys)))"

fun filterE :: "('a \<Rightarrow> error + bool) \<Rightarrow> 'a list \<Rightarrow> error + 'a list" where
  "filterE f [] = Inr []"
| "filterE f (x # xs) =
     (case f x of
        Inl e \<Rightarrow> Inl e
      | Inr b \<Rightarrow>
          (case filterE f xs of Inl e \<Rightarrow> Inl e | Inr ys \<Rightarrow> Inr (if b then x # ys else ys)))"

section \<open>The match resolver: \<open>searchBestMatch\<close>\<close>

record SongPick =
  title :: js
  artists :: "js list"
  videoId :: js
  duration :: js

text \<open>Line 70: \<open>(r.type || "").toLowerCase() === "song"\<close>.\<close>

definition isSong :: "js \<Rightarrow> error + bool" where
  "isSong r =
     (case getProp r ''type'' of
        Inl e \<Rightarrow> Inl e
      | Inr t \<Rightarrow>
          (case (if truthy t then t else JStr []) of
             JStr s \<Rightarrow> Inr (toLowerCase s = ''song'')
           | _ \<Rightarrow> Inl TypeError))"

text \<open>Line 79: \<open>(s.artists || []).map((a) => a.name || a).join(" ")\<close>.\<close>

definition artistNames :: "js \<Rightarrow> error + string" where
  "artistNames s =
     (case getProp s ''artists'' of
        Inl e \<Rightarrow> Inl e
      | Inr a0 \<Rightarrow>
          (case (if truthy a0 then a0 else JArr []) of
             JArr as \<Rightarrow>
               (case mapE (\<lambda>a. case getProp a ''name'' of
                                  Inl e \<Rightarrow> Inl e
                                | Inr n \<Rightarrow> Inr (if truthy n then n else a)) as of
                  Inl e \<Rightarrow> Inl e
                | Inr ns \<Rightarrow> Inr (joinJs '' '' ns))
           | _ \<Rightarrow> Inl TypeError))"

text \<open>Line 80: the haystack \<open>`${s.title ?? s.name ?? ""} ${artistNames}`.toLowerCase()\<close>.\<close>

definition haystack :: "js \<Rightarrow> error + string" where
  "haystack s =
     (case artistNames s of
        Inl e \<Rightarrow> Inl e
      | Inr names \<Rightarrow>
          (case getProp s ''title'' of
             Inl e \<Rightarrow> Inl e
           | Inr t \<Rightarrow>
               (case (if nullish t then getProp s ''name'' else Inr t) of
                  Inl e \<Rightarrow> Inl e
                | Inr t1 \<Rightarrow>
                    Inr (toLowerCase
                          (toString (if nullish t1 then JStr [] else t1) @ '' '' @ names)))))"

text \<open>
  Lines 77 to 84. \<open>compareTwoStrings\<close> is the function of the \<open>string-similarity\<close> package,
  a parameter here; its scores are finite numbers, so the sign of \<open>b.score - a.score\<close> is
  the order of the two scores. \<open>Array.prototype.sort\<close> is stable: with that comparator it
  sorts by falling score and keeps the array's order among equal scores.
\<close>

definition ranked :: "(string \<Rightarrow> string \<Rightarrow> rat) \<Rightarrow> string \<Rightarrow> js list \<Rightarrow> error + (js \<times> rat) list" where
  "ranked compareTwoStrings query songs =
     (case mapE (\<lambda>s. case haystack s of
                        Inl e \<Rightarrow> Inl e
                      | Inr hay \<Rightarrow> Inr (s, compareTwoStrings (toLowerCase query) hay)) songs of
        Inl e \<Rightarrow> Inl e
      | Inr scored \<Rightarrow> Inr (sort_key (\<lambda>p. - snd p) scored))"

text \<open>Lines 92 to 108, the three shapes of the artist data, before the placeholder.\<close>

definition rawArtists :: "js \<Rightarrow> error + js list" where
  "rawArtists top0 =
     (case getProp top0 ''artists'' of
        Inl e \<Rightarrow> Inl e
      | Inr as \<Rightarrow>
          (case (if truthy as then as else JUndefined) of
             JArr xs \<Rightarrow>
               (case mapE (\<lambda>a. case a of
                                  JStr s \<Rightarrow> Inr a
                                | _ \<Rightarrow>
                                    (case getProp a ''name'' of
                                       Inl e \<Rightarrow> Inl e
                                     | Inr n \<Rightarrow>
                                         Inr (if truthy n then n else JStr ''Unknown Artist''))) xs of
                  Inl e \<Rightarrow> Inl e
                | Inr ys \<Rightarrow> Inr (filter truthy ys))
           | _ \<Rightarrow>
               (case getProp top0 ''artist'' of
                  Inl e \<Rightarrow> Inl e
                | Inr a \<Rightarrow>
                    (if \<not> truthy a then Inr []
                     else
                       (case a of
                          JStr s \<Rightarrow> Inr [a]
                        | JBool b \<Rightarrow> Inr []
                        | _ \<Rightarrow>
                            (case getProp a ''name'' of
                               Inl e \<Rightarrow> Inl e
                             | Inr n \<Rightarrow> Inr (if truthy n then [n] else [])))))))"

text \<open>Lines 110 to 112.\<close>

definition extractArtists :: "js \<Rightarrow> error + js list" where
  "extractArtists top0 =
     (case rawArtists top0 of
        Inl e \<Rightarrow> Inl e
      | Inr as \<Rightarrow> Inr (if length as = 0 then [JStr ''Unknown Artist''] else as))"

text \<open>Lines 86 to 121: the pick built from the top candidate.\<close>

definition songPick :: "js \<Rightarrow> error + SongPick" where
  "songPick top0 =
     (case getProp top0 ''title'' of
        Inl e \<Rightarrow> Inl e
      | Inr t \<Rightarrow>
          (case (if truthy t then Inr t else getProp top0 ''name'') of
             Inl e \<Rightarrow> Inl e
           | Inr t1 \<Rightarrow>
               (case extractArtists top0 of
                  Inl e \<Rightarrow> Inl e
                | Inr as \<Rightarrow>
                    (case getProp top0 ''videoId'' of
                       Inl e \<Rightarrow> Inl e
                     | Inr v \<Rightarrow>
                         (case getProp top0 ''duration'' of
                            Inl e \<Rightarrow> Inl e
                          | Inr d \<Rightarrow>
                              Inr \<lparr>title = (if truthy t1 then t1 else JStr ''Unknown Song''),
                                   artists = as, videoId = v, duration = d\<rparr>)))))"

text \<open>
  \<open>searchBestMatch\<close>: \<open>search\<close> is \<open>ytmusic.search\<close>, the remote catalog, which may fail.
  The \<open>catch\<close> logs and throws the error again.
\<close>

definition searchBestMatch ::
  "(string \<Rightarrow> string \<Rightarrow> rat) \<Rightarrow> (string \<Rightarrow> error + js list) \<Rightarrow> string \<Rightarrow> error + SongPick option" where
  "searchBestMatch compareTwoStrings search query =
     (case search query of
        Inl e \<Rightarrow> Inl e
      | Inr results \<Rightarrow>
          (case filterE isSong results of
             Inl e \<Rightarrow> Inl e
           | Inr songs \<Rightarrow>
               (if length songs = 0 then Inr None
                else
                  (case ranked compareTwoStrings query songs of
                     Inl e \<Rightarrow> Inl e
                   | Inr rs \<Rightarrow>
                       (case rs of
                          [] \<Rightarrow> Inl TypeError
                        | (top0, score) # rest \<Rightarrow>
                            (case songPick top0 of
                               Inl e \<Rightarrow> Inl e
                             | Inr p \<Rightarrow> Inr (Some p)))))))"

section \<open>The match resolver: \<open>extractYouTubeVideoId\<close>\<close>

text \<open>
  The three patterns are regular expressions with the flag \<open>i\<close>. A pattern is a sequence of
  the pieces below, and \<open>rmatch\<close> is the backtracking matcher of the language: it tries the
  alternatives of a piece in the engine's order (an optional group first with its body, then
  without; \<open>.*\<close> first with the longest run of characters) and returns the first way the
  whole rest matches, with the text of group 1.

  \<^item> \<open>Lit l\<close>: the characters of \<open>l\<close>, letters in either case;
  \<^item> \<open>Opt r\<close>: \<open>(?:r)?\<close>;
  \<^item> \<open>AnyStar\<close>: \<open>.*\<close>, where \<open>.\<close> is any character but a line terminator;
  \<^item> \<open>Capture n\<close>: the capturing group \<open>([a-zA-Z0-9_-]{n})\<close>;
  \<^item> \<open>Alt a b\<close>: \<open>(?:a|b)\<close>;
  \<^item> \<open>EndOfInput\<close>: \<open>$\<close>, without the flag \<open>m\<close>.
\<close>

datatype rx =
    Lit string
  | Opt "rx list"
  | AnyStar
  | Capture nat
  | Alt "rx list" "rx list"
  | EndOfInput

definition isTokenChar :: "char \<Rightarrow> bool" where
  "isTokenChar c =
     (c \<in> set ''abcdefghijklmnopqrstuvwxyzABCDEFGHIJKLMNOPQRSTUVWXYZ0123456789_-'')"

definition isLineTerminator :: "char \<Rightarrow> bool" where
  "isLineTerminator c = (c = CHR 0x0A \<or> c = CHR 0x0D)"

text \<open>The characters of a literal against the start of the text, one by one; the result is
  the text left after them.\<close>

fun litMatch :: "string \<Rightarrow> string \<Rightarrow> string option" where
  "litMatch [] s = Some s"
| "litMatch (p # ps) [] = None"
| "litMatch (p # ps) (c # cs) =
     (if toLowerChar p = toLowerChar c then litMatch ps cs else None)"

function rmatch :: "rx list \<Rightarrow> string \<Rightarrow> string option \<Rightarrow> string option option" where
  "rmatch [] s cap = Some cap"
| "rmatch (Lit l # k) s cap =
     (case litMatch l s of None \<Rightarrow> None | Some rest \<Rightarrow> rmatch k rest cap)"
| "rmatch (Opt r # k) s cap =
     (case rmatch (r @ k) s cap of Some c \<Rightarrow> Some c | None \<Rightarrow> rmatch k s cap)"
| "rmatch (AnyStar # k) [] cap = rmatch k [] cap"
| "rmatch (AnyStar # k) (c # cs) cap =
     (if isLineTerminator c then rmatch k (c # cs) cap
      else
        (case rmatch (AnyStar # k) cs cap of
           Some r \<Rightarrow> Some r
         | None \<Rightarrow> rmatch k (c # cs) cap))"
| "rmatch (Capture n # k) s cap =
     (if n \<le> length s \<and> list_all isTokenChar (take n s)
      then rmatch k (drop n s) (Some (take n s)) else None)"
| "rmatch (Alt a b # k) s cap =
     (case rmatch (a @ k) s cap of Some c \<Rightarrow> Some c | None \<Rightarrow> rmatch (b @ k) s cap)"
| "rmatch (EndOfInput # k) s cap = (if s = [] then rmatch k s cap else None)"
  by pat_completeness auto
termination
  by (relation "measures [\<lambda>(rs, s, cap). size_list size rs, \<lambda>(rs, s, cap). length s]")
     (auto simp: size_list_append)

text \<open>\<open>text.match(re)\<close> without the flag \<open>g\<close>: the match at the leftmost position that has
  one. \<open>None\<close> is \<open>null\<close>; \<open>Some cap\<close> is a match whose group 1 is \<open>cap\<close>.\<close>

fun rsearch :: "rx list \<Rightarrow> string \<Rightarrow> string option option" where
  "rsearch re [] = rmatch re [] None"
| "rsearch re (c # cs) =
     (case rmatch re (c # cs) None of Some cap \<Rightarrow> Some cap | None \<Rightarrow> rsearch re cs)"

definition YT_WATCH_RE :: "rx list" where
  "YT_WATCH_RE =
     [Opt [Lit ''http'', Opt [Lit ''s''], Lit ''://''], Opt [Lit ''www.''],
      Lit ''youtube.com/watch?'', Opt [AnyStar, Lit ''&''], Lit ''v='', Capture 11]"

definition YT_SHORT_RE :: "rx list" where
  "YT_SHORT_RE =
     [Opt [Lit ''http'', Opt [Lit ''s''], Lit ''://''], Opt [Lit ''www.''],
      Lit ''youtu.be/'', Capture 11, Alt [Lit ''?''] [EndOfInput]]"

definition YT_MUSIC_RE :: "rx list" where
  "YT_MUSIC_RE =
     [Opt [Lit ''http'', Opt [Lit ''s''], Lit ''://''],
      Lit ''music.youtube.com/watch?'', Opt [AnyStar, Lit ''&''], Lit ''v='', Capture 11]"

text \<open>\<open>text.match(re)?.[1]\<close>, and \<open>a || b\<close> on values that are a string or \<open>undefined\<close>.\<close>

definition group1 :: "string option option \<Rightarrow> string option" where
  "group1 m = (case m of None \<Rightarrow> None | Some cap \<Rightarrow> cap)"

definition truthyStr :: "string option \<Rightarrow> bool" where
  "truthyStr v = (case v of None \<Rightarrow> False | Some s \<Rightarrow> s \<noteq> [])"

definition orElse :: "string option \<Rightarrow> string option \<Rightarrow> string option" where
  "orElse a b = (if truthyStr a then a else b)"

text \<open>Lines 45 to 52; the last \<open>|| null\<close> turns a falsy value into \<open>null\<close>.\<close>

definition extractYouTubeVideoId :: "string \<Rightarrow> string option" where
  "extractYouTubeVideoId text =
     (let v = orElse (group1 (rsearch YT_WATCH_RE text))
                (orElse (group1 (rsearch YT_SHORT_RE text))
                   (group1 (rsearch YT_MUSIC_RE text)))
      in if truthyStr v then v else None)"

section \<open>The remote playlist service\<close>

text \<open>
  One account of the remote platform, as the client sees it through the four endpoints it
  calls. A listing is paged by an offset: a page holds up to \<open>maxResults\<close> entries, and a
  continuation token is handed out while entries remain. \<open>rejects\<close> says which calls the
  remote refuses, with the message of the error; \<open>newPlaylistId\<close>, \<open>newPlaylistPos\<close> and
  \<open>newItemId\<close> are the remote's choices for the next created playlist (its id, and where
  the listing shows it) and the next inserted item. Every call is recorded in \<open>calls\<close>.
\<close>

record playlist =
  pl_id :: "string option"
  pl_title :: "string option"

record playlistItem =
  it_id :: "string option"
  it_title :: "string option"
  it_videoOwnerChannelTitle :: "string option"
  it_channelTitle :: "string option"
  it_videoId :: "string option"

datatype api_call =
    GetAccessToken
  | PlaylistsList nat "nat option"
  | PlaylistsInsert string
  | PlaylistItemsList string nat
  | PlaylistItemsInsert string js
  | PlaylistItemsDelete string

record youtube =
  rejects :: "api_call \<Rightarrow> string option"
  playlists :: "playlist list"
  items :: "string \<Rightarrow> playlistItem list"
  newPlaylistId :: "string option"
  newPlaylistPos :: nat
  newItemId :: "string option"
  calls :: "api_call list"

definition called :: "api_call \<Rightarrow> youtube \<Rightarrow> youtube" where
  "called c yt = yt\<lparr>calls := calls yt @ [c]\<rparr>"

definition playlists_list ::
  "nat \<Rightarrow> nat option \<Rightarrow> youtube \<Rightarrow> (error + playlist list \<times> nat option) \<times> youtube" where
  "playlists_list maxResults pageToken yt =
     (let c = PlaylistsList maxResults pageToken; yt1 = called c yt
      in case rejects yt c of
           Some msg \<Rightarrow> (Inl (RemoteError msg), yt1)
         | None \<Rightarrow>
             (let off = (case pageToken of None \<Rightarrow> 0 | Some t \<Rightarrow> t)
              in (Inr (take maxResults (drop off (playlists yt)),
                       if off + maxResults < length (playlists yt)
                       then Some (off + maxResults) else None), yt1)))"

definition playlists_insert :: "string \<Rightarrow> youtube \<Rightarrow> (error + string option) \<times> youtube" where
  "playlists_insert name yt =
     (let c = PlaylistsInsert name; yt1 = called c yt
      in case rejects yt c of
           Some msg \<Rightarrow> (Inl (RemoteError msg), yt1)
         | None \<Rightarrow>
             (let pl = \<lparr>pl_id = newPlaylistId yt, pl_title = Some name\<rparr>;
                  pos = min (newPlaylistPos yt) (length (playlists yt))
              in (Inr (newPlaylistId yt),
                  yt1\<lparr>playlists := take pos (playlists yt) @ pl # drop pos (playlists yt)\<rparr>)))"

definition playlistItems_list ::
  "string \<Rightarrow> nat \<Rightarrow> youtube \<Rightarrow> (error + playlistItem list) \<times> youtube" where
  "playlistItems_list playlistId maxResults yt =
     (let c = PlaylistItemsList playlistId maxResults; yt1 = called c yt
      in case rejects yt c of
           Some msg \<Rightarrow> (Inl (RemoteError msg), yt1)
         | None \<Rightarrow> (Inr (take maxResults (items yt playlistId)), yt1))"

definition playlistItems_insert :: "string \<Rightarrow> js \<Rightarrow> youtube \<Rightarrow> (error + unit) \<times> youtube" where
  "playlistItems_insert playlistId v yt =
     (let c = PlaylistItemsInsert playlistId v; yt1 = called c yt
      in case rejects yt c of
           Some msg \<Rightarrow> (Inl (RemoteError msg), yt1)
         | None \<Rightarrow>
             (let it = \<lparr>it_id = newItemId yt, it_title = None,
                        it_videoOwnerChannelTitle = None, it_channelTitle = None,
                        it_videoId = (case v of JStr vid \<Rightarrow> Some vid | _ \<Rightarrow> None)\<rparr>
              in (Inr (), yt1\<lparr>items := (items yt)(playlistId := items yt playlistId @ [it])\<rparr>)))"

definition playlistItems_delete :: "string \<Rightarrow> youtube \<Rightarrow> (error + unit) \<times> youtube" where
  "playlistItems_delete itemId yt =
     (let c = PlaylistItemsDelete itemId; yt1 = called c yt
      in case rejects yt c of
           Some msg \<Rightarrow> (Inl (RemoteError msg), yt1)
         | None \<Rightarrow>
             (Inr (), yt1\<lparr>items := (\<lambda>p. filter (\<lambda>it. it_id it \<noteq> Some itemId) (items yt p))\<rparr>))"

section \<open>The playlist client: class \<open>Google\<close>\<close>

text \<open>Lines 128 to 135: any failure to get an access token becomes the authentication
  error.\<close>

definition ensureGoogleAccess :: "youtube \<Rightarrow> (error + unit) \<times> youtube" where
  "ensureGoogleAccess yt =
     (let yt1 = called GetAccessToken yt
      in case rejects yt GetAccessToken of
           Some msg \<Rightarrow> (Inl GoogleAuthFailed, yt1)
         | None \<Rightarrow> (Inr (), yt1))"

text \<open>
  Lines 145 to 160, the \<open>do ... while (!foundId && pageToken)\<close> loop. The body lists one page
  and stops the inner \<open>for\<close> at the first title that matches, taking that playlist's id,
  which may be missing (\<open>pl.id ?? undefined\<close>).
\<close>

definition titleMatches :: "string \<Rightarrow> playlist \<Rightarrow> bool" where
  "titleMatches name pl =
     (case pl_title pl of
        None \<Rightarrow> False
      | Some t \<Rightarrow> toLowerCase (trim t) = toLowerCase (trim name))"

function searchPlaylists ::
  "string \<Rightarrow> nat option \<Rightarrow> string option \<Rightarrow> youtube \<Rightarrow> (error + string option) \<times> youtube" where
  "searchPlaylists name pageToken foundId yt =
     (case playlists_list 50 pageToken yt of
        (Inl e, yt1) \<Rightarrow> (Inl e, yt1)
      | (Inr (page, nextPageToken), yt1) \<Rightarrow>
          (let foundId1 = (case find (titleMatches name) page of
                             Some pl \<Rightarrow> pl_id pl
                           | None \<Rightarrow> foundId)
           in if \<not> truthyStr foundId1 \<and> nextPageToken \<noteq> None
              then searchPlaylists name nextPageToken foundId1 yt1
              else (Inr foundId1, yt1)))"
  by pat_completeness auto
termination
  by (relation "measure (\<lambda>(name, pageToken, foundId, yt).
                  length (playlists yt) - (case pageToken of None \<Rightarrow> 0 | Some t \<Rightarrow> t))")
     (auto simp: playlists_list_def called_def Let_def split: option.splits if_splits)

declare searchPlaylists.simps [simp del]

text \<open>Lines 137 to 190. The \<open>catch\<close> logs and throws the error again.\<close>

definition ensurePlaylist :: "string \<Rightarrow> youtube \<Rightarrow> (error + string) \<times> youtube" where
  "ensurePlaylist name yt =
     (case ensureGoogleAccess yt of
        (Inl e, yt1) \<Rightarrow> (Inl e, yt1)
      | (Inr u, yt1) \<Rightarrow>
          (case searchPlaylists name None None yt1 of
             (Inl e, yt2) \<Rightarrow> (Inl e, yt2)
           | (Inr foundId, yt2) \<Rightarrow>
               (if truthyStr foundId then (Inr (the foundId), yt2)
                else
                  (case playlists_insert name yt2 of
                     (Inl e, yt3) \<Rightarrow> (Inl e, yt3)
                   | (Inr newId, yt3) \<Rightarrow>
                       (if \<not> truthyStr newId then (Inl CreatePlaylistFailed, yt3)
                        else (Inr (the newId), yt3))))))"

text \<open>The message of an error, which the \<open>catch\<close> of \<open>addToPlaylist\<close> inspects.\<close>

fun message :: "error \<Rightarrow> string" where
  "message TypeError = ''TypeError''"
| "message GoogleAuthFailed = ''Google authentication failed. Check your GOOGLE_REFRESH_TOKEN.''"
| "message CreatePlaylistFailed = ''Failed to create playlist''"
| "message VideoNotFound = ''Video not found or unavailable''"
| "message PlaylistNotAccessible = ''Cannot access playlist. Check permissions.''"
| "message (RemoteError msg) = msg"

definition addToPlaylistCatch :: "error \<Rightarrow> error" where
  "addToPlaylistCatch e =
     (if includes_str ''videoNotFound'' (message e) then VideoNotFound
      else if includes_str ''playlistItemsNotAccessible'' (message e) then PlaylistNotAccessible
      else e)"

text \<open>Lines 192 to 215.\<close>

definition addToPlaylist :: "string \<Rightarrow> js \<Rightarrow> youtube \<Rightarrow> (error + unit) \<times> youtube" where
  "addToPlaylist playlistId v yt =
     (case ensureGoogleAccess yt of
        (Inl e, yt1) \<Rightarrow> (Inl (addToPlaylistCatch e), yt1)
      | (Inr u, yt1) \<Rightarrow>
          (case playlistItems_insert playlistId v yt1 of
             (Inl e, yt2) \<Rightarrow> (Inl (addToPlaylistCatch e), yt2)
           | (Inr u, yt2) \<Rightarrow> (Inr (), yt2)))"

text \<open>Lines 217 to 239: \<open>list.data.items?.[0]\<close>, then \<open>!first?.id\<close>.\<close>

definition skipFirst :: "string \<Rightarrow> youtube \<Rightarrow> (error + bool) \<times> youtube" where
  "skipFirst playlistId yt =
     (case ensureGoogleAccess yt of
        (Inl e, yt1) \<Rightarrow> (Inl e, yt1)
      | (Inr u, yt1) \<Rightarrow>
          (case playlistItems_list playlistId 1 yt1 of
             (Inl e, yt2) \<Rightarrow> (Inl e, yt2)
           | (Inr list, yt2) \<Rightarrow>
               (case list of
                  [] \<Rightarrow> (Inr False, yt2)
                | first # rest \<Rightarrow>
                    (if \<not> truthyStr (it_id first) then (Inr False, yt2)
                     else
                       (case playlistItems_delete (the (it_id first)) yt2 of
                          (Inl e, yt3) \<Rightarrow> (Inl e, yt3)
                        | (Inr u, yt3) \<Rightarrow> (Inr True, yt3))))))"

text \<open>Lines 241 to 269; the \<open>url\<close> of the result is not read by any caller and is left
  out.\<close>

definition nowPlaying :: "string \<Rightarrow> youtube \<Rightarrow> (error + (string \<times> string) option) \<times> youtube" where
  "nowPlaying playlistId yt =
     (case ensureGoogleAccess yt of
        (Inl e, yt1) \<Rightarrow> (Inl e, yt1)
      | (Inr u, yt1) \<Rightarrow>
          (case playlistItems_list playlistId 1 yt1 of
             (Inl e, yt2) \<Rightarrow> (Inl e, yt2)
           | (Inr list, yt2) \<Rightarrow>
               (case list of
                  [] \<Rightarrow> (Inr None, yt2)
                | it # rest \<Rightarrow>
                    (Inr (Some (case it_title it of None \<Rightarrow> ''Unknown'' | Some t \<Rightarrow> t,
                                if truthyStr (it_videoOwnerChannelTitle it)
                                then the (it_videoOwnerChannelTitle it)
                                else if truthyStr (it_channelTitle it)
                                then the (it_channelTitle it)
                                else ''Unknown'')), yt2))))"

section \<open>The tenant session manager\<close>

text \<open>
  The process state the message handler works on: the store's rows, the module-level map
  \<open>googleInstances\<close>, the remote account behind each refresh token, the remote catalog
  (\<open>ytmusic.search\<close>, and whether \<open>ytmusic.initialize\<close> fails), and the replies sent with
  \<open>chatClient.say\<close>. The store and \<open>say\<close> are taken to succeed.
\<close>

record google =
  refreshToken :: string
  requestsPlaylistName :: string

record world =
  users :: "user list"
  googleInstances :: "string \<rightharpoonup> google"
  accounts :: "string \<Rightarrow> youtube"
  ytmusicFails :: bool
  catalog :: "string \<Rightarrow> error + js list"
  said :: "(string \<times> string) list"

text \<open>A method of a \<open>Google\<close> instance runs against the account of its refresh token.\<close>

definition onAccount :: "google \<Rightarrow> (youtube \<Rightarrow> 'a \<times> youtube) \<Rightarrow> world \<Rightarrow> 'a \<times> world" where
  "onAccount g f w =
     (case f (accounts w (refreshToken g)) of
        (r, yt) \<Rightarrow> (r, w\<lparr>accounts := (accounts w)(refreshToken g := yt)\<rparr>))"

text \<open>Lines 48 to 62 of the class: the catalog client first, then the access-token probe.\<close>

definition initialize :: "google \<Rightarrow> world \<Rightarrow> (error + unit) \<times> world" where
  "initialize g w =
     (if ytmusicFails w then (Inl (RemoteError ''ytmusic.initialize''), w)
      else onAccount g ensureGoogleAccess w)"

text \<open>Lines 14 to 38.\<close>

definition getGoogleForUser :: "string \<Rightarrow> world \<Rightarrow> (error + google option) \<times> world" where
  "getGoogleForUser userId w =
     (case googleInstances w userId of
        Some g \<Rightarrow> (Inr (Some g), w)
      | None \<Rightarrow>
          (case find (\<lambda>u. user_id u = userId) (users w) of
             None \<Rightarrow> (Inr None, w)
           | Some u \<Rightarrow>
               (if \<not> truthyStr (googleRefreshToken u) then (Inr None, w)
                else
                  (let g = \<lparr>refreshToken = the (googleRefreshToken u),
                            requestsPlaylistName = playlistName u\<rparr>
                   in case initialize g w of
                        (Inl e, w1) \<Rightarrow> (Inl e, w1)
                      | (Inr x, w1) \<Rightarrow>
                          (Inr (Some g),
                           w1\<lparr>googleInstances := (googleInstances w1)(userId \<mapsto> g)\<rparr>)))))"

section \<open>The command dispatcher\<close>

record userInfo =
  isMod :: bool
  isBroadcaster :: bool

definition say :: "string \<Rightarrow> string \<Rightarrow> world \<Rightarrow> world" where
  "say channel text w = w\<lparr>said := said w @ [(channel, text)]\<rparr>"

text \<open>The reply texts start with symbols outside ASCII, written here as their UTF-8 bytes.\<close>

definition CHECK_MARK :: string where
  "CHECK_MARK = [CHR 0xE2, CHR 0x9C, CHR 0x93]"

definition EM_DASH :: string where
  "EM_DASH = [CHR 0xE2, CHR 0x80, CHR 0x94]"

definition EIGHTH_NOTE :: string where
  "EIGHTH_NOTE = [CHR 0xE2, CHR 0x99, CHR 0xAA]"

definition SKIP_SIGN :: string where
  "SKIP_SIGN = [CHR 0xE2, CHR 0x8F, CHR 0xAD]"

text \<open>\<open>prisma.user.update\<close> of \<open>youtubePlaylistId\<close>, by the row's id.\<close>

definition updatePlaylistId :: "string \<Rightarrow> string \<Rightarrow> world \<Rightarrow> world" where
  "updatePlaylistId userId playlistId w =
     w\<lparr>users := map (\<lambda>u. if user_id u = userId then u\<lparr>youtubePlaylistId := Some playlistId\<rparr>
                          else u) (users w)\<rparr>"

text \<open>
  Lines 158 to 166, and again 180 to 188: the remembered playlist id, or \<open>ensurePlaylist\<close>
  and the write-back when the row read at the start of the handler had none.
\<close>

definition resolvePlaylist :: "user \<Rightarrow> google \<Rightarrow> world \<Rightarrow> (error + string) \<times> world" where
  "resolvePlaylist dbUser g w =
     (if truthyStr (youtubePlaylistId dbUser) then (Inr (the (youtubePlaylistId dbUser)), w)
      else
        (case onAccount g (ensurePlaylist (playlistName dbUser)) w of
           (Inl e, w1) \<Rightarrow> (Inl e, w1)
         | (Inr playlistId, w1) \<Rightarrow>
             (Inr playlistId, updatePlaylistId (user_id dbUser) playlistId w1)))"

text \<open>
  The handlers below return a flag with the state: \<open>True\<close> when the handler has returned,
  \<open>False\<close> when control goes on to the next \<open>if\<close> of \<open>onMessage\<close>.

  Lines 147 to 192, the body of the \<open>try\<close> of the request command.
\<close>

definition requestTry ::
  "(string \<Rightarrow> string \<Rightarrow> rat) \<Rightarrow> user \<Rightarrow> string \<Rightarrow> string \<Rightarrow> world \<Rightarrow> (error + bool) \<times> world" where
  "requestTry compareTwoStrings dbUser channel query w =
     (case getGoogleForUser (user_id dbUser) w of
        (Inl e, w1) \<Rightarrow> (Inl e, w1)
      | (Inr None, w1) \<Rightarrow>
          (Inr True,
           say channel ''YouTube Music is not connected. Please visit the dashboard to connect!'' w1)
      | (Inr (Some g), w1) \<Rightarrow>
          (case extractYouTubeVideoId query of
             Some v \<Rightarrow>
               (case resolvePlaylist dbUser g w1 of
                  (Inl e, w2) \<Rightarrow> (Inl e, w2)
                | (Inr playlistId, w2) \<Rightarrow>
                    (case onAccount g (addToPlaylist playlistId (JStr v)) w2 of
                       (Inl e, w3) \<Rightarrow> (Inl e, w3)
                     | (Inr x, w3) \<Rightarrow>
                         (Inr True,
                          say channel (CHECK_MARK @ '' Added to queue: https://youtu.be/'' @ v) w3)))
           | None \<Rightarrow>
               (case searchBestMatch compareTwoStrings (catalog w1) query of
                  Inl e \<Rightarrow> (Inl e, w1)
                | Inr None \<Rightarrow>
                    (Inr True,
                     say channel (''No results found for '' @ [CHR 0x22] @ query @ [CHR 0x22]) w1)
                | Inr (Some best) \<Rightarrow>
                    (case resolvePlaylist dbUser g w1 of
                       (Inl e, w2) \<Rightarrow> (Inl e, w2)
                     | (Inr playlistId, w2) \<Rightarrow>
                         (case onAccount g (addToPlaylist playlistId (videoId best)) w2 of
                            (Inl e, w3) \<Rightarrow> (Inl e, w3)
                          | (Inr x, w3) \<Rightarrow>
                              (Inr False,
                               say channel
                                 (CHECK_MARK @ '' Added: '' @ toString (title best) @ '' ''
                                    @ EM_DASH @ '' '' @ joinJs '', '' (artists best)) w3))))))"

text \<open>Lines 139 to 197.\<close>

definition handleRequest ::
  "(string \<Rightarrow> string \<Rightarrow> rat) \<Rightarrow> user \<Rightarrow> string \<Rightarrow> string \<Rightarrow> world \<Rightarrow> bool \<times> world" where
  "handleRequest compareTwoStrings dbUser channel text w =
     (if startsWith ''!sr '' (toLowerCase text) then
        (let query = trim (drop 4 text)
         in if query = [] then
              (True, say channel ''Please provide a song name or YouTube link!'' w)
            else
              (case requestTry compareTwoStrings dbUser channel query w of
                 (Inl e, w1) \<Rightarrow>
                   (False, say channel ''Sorry, something went wrong with your request!'' w1)
               | (Inr returned, w1) \<Rightarrow> (returned, w1)))
      else (False, w))"

text \<open>Lines 200 to 221.\<close>

definition handleNowPlaying :: "user \<Rightarrow> string \<Rightarrow> string \<Rightarrow> world \<Rightarrow> bool \<times> world" where
  "handleNowPlaying dbUser channel text w =
     (if toLowerCase text = ''!np'' then
        (case getGoogleForUser (user_id dbUser) w of
           (Inl e, w1) \<Rightarrow> (False, say channel ''Could not fetch currently playing song.'' w1)
         | (Inr g, w1) \<Rightarrow>
             (if g = None \<or> \<not> truthyStr (youtubePlaylistId dbUser)
              then (True, say channel ''No playlist found!'' w1)
              else
                (case onAccount (the g) (nowPlaying (the (youtubePlaylistId dbUser))) w1 of
                   (Inl e, w2) \<Rightarrow>
                     (False, say channel ''Could not fetch currently playing song.'' w2)
                 | (Inr None, w2) \<Rightarrow> (True, say channel ''Nothing is playing right now!'' w2)
                 | (Inr (Some (t, c)), w2) \<Rightarrow>
                     (False,
                      say channel (EIGHTH_NOTE @ '' Now Playing: '' @ t @ '' by '' @ c) w2))))
      else (False, w))"

text \<open>Lines 224 to 249.\<close>

definition handleSkip :: "user \<Rightarrow> string \<Rightarrow> string \<Rightarrow> userInfo \<Rightarrow> world \<Rightarrow> bool \<times> world" where
  "handleSkip dbUser channel text info w =
     (if toLowerCase text = ''!skip'' then
        (if \<not> isMod info \<and> \<not> isBroadcaster info then (True, w)
         else
           (case getGoogleForUser (user_id dbUser) w of
              (Inl e, w1) \<Rightarrow> (False, say channel ''Could not skip song.'' w1)
            | (Inr g, w1) \<Rightarrow>
                (if g = None \<or> \<not> truthyStr (youtubePlaylistId dbUser)
                 then (True, say channel ''No playlist found!'' w1)
                 else
                   (case onAccount (the g) (skipFirst (the (youtubePlaylistId dbUser))) w1 of
                      (Inl e, w2) \<Rightarrow> (False, say channel ''Could not skip song.'' w2)
                    | (Inr skipped, w2) \<Rightarrow>
                        (False,
                         if skipped then say channel (SKIP_SIGN @ '' Skipped!'') w2
                         else say channel ''Queue is empty!'' w2)))))
      else (False, w))"

text \<open>
  Lines 119 to 250, the message handler: the row of the channel's owner
  (\<open>channel.replace('#', '')\<close> drops the first \<open>#\<close>), then the three commands in turn.
\<close>

definition onMessage ::
  "(string \<Rightarrow> string \<Rightarrow> rat) \<Rightarrow> string \<Rightarrow> string \<Rightarrow> string \<Rightarrow> userInfo \<Rightarrow> world \<Rightarrow> world" where
  "onMessage compareTwoStrings channel user text info w =
     (let channelName = remove1 CHR ''#'' channel
      in case find (\<lambda>u. twitchUsername u = channelName) (users w) of
           None \<Rightarrow> w
         | Some dbUser \<Rightarrow>
             (case handleRequest compareTwoStrings dbUser channel text w of
                (True, w1) \<Rightarrow> w1
              | (False, w1) \<Rightarrow>
                  (case handleNowPlaying dbUser channel text w1 of
                     (True, w2) \<Rightarrow> w2
                   | (False, w2) \<Rightarrow> snd (handleSkip dbUser channel text info w2))))"

section \<open>Notions used in the statements\<close>





text \<open>Sample data: a row of the store, a remote account with one playlist of two items, and
  a process state whose catalog client fails to initialize.\<close>

definition exampleRow :: "string \<Rightarrow> user" where
  "exampleRow name =
     \<lparr>user_id = ''id-'' @ name, twitchUserId = ''tw-'' @ name, twitchUsername = name,
      twitchAccessToken = ''at'', twitchRefreshToken = ''rt'', googleRefreshToken = None,
      youtubePlaylistId = None, playlistName = ''Song Requests'', isActive = True\<rparr>"

definition exampleItem :: "string \<Rightarrow> playlistItem" where
  "exampleItem i =
     \<lparr>it_id = Some i, it_title = Some ''Hello'', it_videoOwnerChannelTitle = Some ''Adele'',
      it_channelTitle = None, it_videoId = Some ''dQw4w9WgXcQ''\<rparr>"

definition exampleAccount :: youtube where
  "exampleAccount =
     \<lparr>rejects = (\<lambda>c. None),
      playlists = [\<lparr>pl_id = Some ''PL1'', pl_title = Some ''Mixtape''\<rparr>],
      items = (\<lambda>p. if p = ''PL1'' then [exampleItem ''I1'', exampleItem ''I2''] else []),
      newPlaylistId = Some ''PL2'', newPlaylistPos = 0, newItemId = Some ''I3'',
      calls = []\<rparr>"

definition exampleWorld :: world where
  "exampleWorld =
     \<lparr>users = [(exampleRow ''x'')\<lparr>googleRefreshToken := Some ''g-x''\<rparr>, exampleRow ''y''],
      googleInstances = Map.empty,
      accounts = (\<lambda>t. exampleAccount),
      ytmusicFails = True,
      catalog = (\<lambda>q. Inr []),
      said = []\<rparr>"










text \<open>An artist object with a name, and sample search results: two songs and a video.\<close>

definition namedArtist :: "string \<Rightarrow> js" where
  "namedArtist n = JObj [(''name'', JStr n)]"

definition exampleResults :: "js list" where
  "exampleResults =
     [JObj [(''type'', JStr ''SONG''), (''title'', JStr ''Hello''),
            (''artists'', JArr [namedArtist ''Adele'']), (''videoId'', JStr ''YQHsXMglC9A'')],
      JObj [(''type'', JStr ''video''), (''title'', JStr ''Hello (unrelated)'')],
      JObj [(''type'', JStr ''song''), (''title'', JStr ''Hello''),
            (''artist'', JStr ''Lionel Richie''), (''videoId'', JStr ''mHONNcZbwDY'')]]"

definition exampleSearch :: "string \<Rightarrow> error + js list" where
  "exampleSearch q = Inr exampleResults"

definition exampleCompare :: "string \<Rightarrow> string \<Rightarrow> rat" where
  "exampleCompare a b = (if a = b then 1 else 0)"

definition exampleGoogle :: google where
  "exampleGoogle = \<lparr>refreshToken = ''g-x'', requestsPlaylistName = ''Song Requests''\<rparr>"

section \<open>Properties of the list and string helpers\<close>







section \<open>The playlist client\<close>

subsection \<open>Finding or creating the playlist\<close>








subsection \<open>Removing the head\<close>

text \<open>
  C6. \<open>skipFirst\<close>, when the token probe and the listing are answered: on a playlist with no
  items it returns \<open>false\<close> after those two calls, with no delete call and the account
  otherwise as it was; on a playlist whose first item carries an id, and whose delete call is
  answered, it issues exactly one delete call, for that id, and returns \<open>true\<close>. The
  remote then holds the rest of the list without the items of that id, which is the rest of
  the list when ids are not repeated.
\<close>

theorem skipFirst_head:
  assumes "rejects yt GetAccessToken = None"
    and "rejects yt (PlaylistItemsList playlistId 1) = None"
  shows "(items yt playlistId = [] \<longrightarrow>
            skipFirst playlistId yt =
              (Inr False, yt\<lparr>calls := calls yt @ [GetAccessToken, PlaylistItemsList playlistId 1]\<rparr>)) \<and>
         (items yt playlistId = first # rest \<and> it_id first = Some i \<and> i \<noteq> [] \<and>
          rejects yt (PlaylistItemsDelete i) = None \<longrightarrow>
            (\<exists>yt'. skipFirst playlistId yt = (Inr True, yt') \<and>
               calls yt' = calls yt @ [GetAccessToken, PlaylistItemsList playlistId 1,
                                       PlaylistItemsDelete i] \<and>
               items yt' playlistId = filter (\<lambda>it. it_id it \<noteq> Some i) rest \<and>
               ((\<forall>it \<in> set rest. it_id it \<noteq> Some i) \<longrightarrow> items yt' playlistId = rest)))"
  using assms
  by (auto simp: skipFirst_def ensureGoogleAccess_def playlistItems_list_def
      playlistItems_delete_def called_def truthyStr_def Let_def)

theorem skipFirst_head_witness:
  "skipFirst ''PL0'' exampleAccount =
     (Inr False, exampleAccount\<lparr>calls := [GetAccessToken, PlaylistItemsList ''PL0'' 1]\<rparr>) \<and>
   (\<exists>yt'. skipFirst ''PL1'' exampleAccount = (Inr True, yt') \<and>
      calls yt' = [GetAccessToken, PlaylistItemsList ''PL1'' 1, PlaylistItemsDelete ''I1''] \<and>
      items yt' ''PL1'' = [exampleItem ''I2''])"
proof -
  have h1: "rejects exampleAccount GetAccessToken = None"
    by (simp add: exampleAccount_def)
  have e: "items exampleAccount ''PL0'' = []"
    by (simp add: exampleAccount_def)
  have h2: "rejects exampleAccount (PlaylistItemsList ''PL0'' 1) = None"
    by (simp add: exampleAccount_def)
  have h3: "rejects exampleAccount (PlaylistItemsList ''PL1'' 1) = None"
    by (simp add: exampleAccount_def)
  have n: "items exampleAccount ''PL1'' = exampleItem ''I1'' # [exampleItem ''I2''] \<and>
           it_id (exampleItem ''I1'') = Some ''I1'' \<and> ''I1'' \<noteq> [] \<and>
           rejects exampleAccount (PlaylistItemsDelete ''I1'') = None"
    by (simp add: exampleAccount_def exampleItem_def)
  have d: "\<forall>it \<in> set [exampleItem ''I2'']. it_id it \<noteq> Some ''I1''"
    by (simp add: exampleItem_def)
  have c: "calls exampleAccount = []" by (simp add: exampleAccount_def)
  from skipFirst_head[OF h1 h2, of "exampleItem ''I1''" "[exampleItem ''I2'']" "''I1''"] e c
  have a: "skipFirst ''PL0'' exampleAccount =
     (Inr False, exampleAccount\<lparr>calls := [GetAccessToken, PlaylistItemsList ''PL0'' 1]\<rparr>)"
    by simp
  from skipFirst_head[OF h1 h3, of "exampleItem ''I1''" "[exampleItem ''I2'']" "''I1''"] n d c
  have b: "\<exists>yt'. skipFirst ''PL1'' exampleAccount = (Inr True, yt') \<and>
      calls yt' = [GetAccessToken, PlaylistItemsList ''PL1'' 1, PlaylistItemsDelete ''I1''] \<and>
      items yt' ''PL1'' = [exampleItem ''I2'']"
    by auto
  from a b show ?thesis by blast
qed

section \<open>The roster reconciler\<close>

lemma part_loop_done: "length (channels r) \<le> i \<Longrightarrow> part_loop fails cur i r = (None, r)"
  by (subst part_loop.simps) simp

lemma part_loop_keep:
  "i < length (channels r) \<Longrightarrow> find (\<lambda>u. twitchUsername u = channels r ! i) cur = Some u \<Longrightarrow>
   part_loop fails cur i r = part_loop fails cur (Suc i) r"
  by (subst part_loop.simps) simp

lemma part_loop_part:
  "i < length (channels r) \<Longrightarrow> find (\<lambda>u. twitchUsername u = channels r ! i) cur = None \<Longrightarrow>
   \<not> fails (Part (channels r ! i)) \<Longrightarrow> indexOf (channels r) (channels r ! i) = Some idx \<Longrightarrow>
   part_loop fails cur i r =
     part_loop fails cur (Suc i)
       (r\<lparr>issued := issued r @ [Part (channels r ! i)], channels := splice1 idx (channels r)\<rparr>)"
  by (subst part_loop.simps) (simp add: issue_def Let_def)

lemma part_loop_fail:
  "i < length (channels r) \<Longrightarrow> find (\<lambda>u. twitchUsername u = channels r ! i) cur = None \<Longrightarrow>
   fails (Part (channels r ! i)) \<Longrightarrow>
   part_loop fails cur i r =
     (Some (RemoteError ''part''), r\<lparr>issued := issued r @ [Part (channels r ! i)]\<rparr>)"
  by (subst part_loop.simps) (simp add: issue_def Let_def)

text \<open>
  C2. The scenario of the reconciler: the active rows are those of the channels \<open>a\<close> and
  \<open>b\<close>, the array holds \<open>a\<close> and \<open>c\<close>, in either order each, and the three remote calls
  that are due succeed. One tick leaves the array \<open>[a, b]\<close> and has issued exactly the
  registration of \<open>b\<close>'s credential, the join of \<open>b\<close> and the part of \<open>c\<close>: no call names
  \<open>a\<close>.
\<close>

theorem tick_scenario:
  assumes "a \<noteq> b" and "a \<noteq> c" and "b \<noteq> c"
    and "twitchUsername ua = a" and "twitchUsername ub = b"
    and "filter isActive rows = [ua, ub] \<or> filter isActive rows = [ub, ua]"
    and "chs = [a, c] \<or> chs = [c, a]"
    and "\<not> fails (AddUser (twitchUserId ub) (twitchAccessToken ub) (twitchRefreshToken ub))"
    and "\<not> fails (Join b)" and "\<not> fails (Part c)"
  shows "tick fails rows \<lparr>channels = chs, issued = []\<rparr> =
           (None, \<lparr>channels = [a, b],
                   issued = [AddUser (twitchUserId ub) (twitchAccessToken ub) (twitchRefreshToken ub),
                             Join b, Part c]\<rparr>)"
proof -
  let ?add = "AddUser (twitchUserId ub) (twitchAccessToken ub) (twitchRefreshToken ub)"
  let ?cur = "filter isActive rows"
  have j: "join_loop fails ?cur \<lparr>channels = chs, issued = []\<rparr> =
             \<lparr>channels = chs @ [b], issued = [?add, Join b]\<rparr>"
    using assms by (auto simp: issue_def Let_def)
  have fa: "\<exists>u. find (\<lambda>u. twitchUsername u = a) ?cur = Some u"
    using assms(1,4,5,6) by auto
  have fb: "\<exists>u. find (\<lambda>u. twitchUsername u = b) ?cur = Some u"
    using assms(1,4,5,6) by auto
  have fc: "find (\<lambda>u. twitchUsername u = c) ?cur = None"
    using assms(2,3,4,5,6) by auto
  have p: "part_loop fails ?cur 0 \<lparr>channels = chs @ [b], issued = [?add, Join b]\<rparr> =
             (None, \<lparr>channels = [a, b], issued = [?add, Join b, Part c]\<rparr>)"
  proof -
    from assms(7) show ?thesis
    proof
      assume chs: "chs = [a, c]"
      obtain u where u: "find (\<lambda>u. twitchUsername u = a) ?cur = Some u" using fa by blast
      have "part_loop fails ?cur 0 \<lparr>channels = chs @ [b], issued = [?add, Join b]\<rparr> =
            part_loop fails ?cur (Suc 0) \<lparr>channels = [a, c, b], issued = [?add, Join b]\<rparr>"
        using u by (subst part_loop_keep[where u = u]) (simp_all add: chs)
      also have "\<dots> = part_loop fails ?cur (Suc (Suc 0))
                         \<lparr>channels = [a, b], issued = [?add, Join b, Part c]\<rparr>"
        using fc assms(1,2,3,10)
        by (subst part_loop_part[where idx = 1]) (simp_all add: splice1_def)
      also have "\<dots> = (None, \<lparr>channels = [a, b], issued = [?add, Join b, Part c]\<rparr>)"
        by (rule part_loop_done) simp
      finally show ?thesis .
    next
      assume chs: "chs = [c, a]"
      obtain u where u: "find (\<lambda>u. twitchUsername u = b) ?cur = Some u" using fb by blast
      have "part_loop fails ?cur 0 \<lparr>channels = chs @ [b], issued = [?add, Join b]\<rparr> =
            part_loop fails ?cur (Suc 0) \<lparr>channels = [a, b], issued = [?add, Join b, Part c]\<rparr>"
        using fc assms(1,2,3,10)
        by (subst part_loop_part[where idx = 0]) (simp_all add: splice1_def chs)
      also have "\<dots> = part_loop fails ?cur (Suc (Suc 0))
                         \<lparr>channels = [a, b], issued = [?add, Join b, Part c]\<rparr>"
        using u by (subst part_loop_keep[where u = u]) simp_all
      also have "\<dots> = (None, \<lparr>channels = [a, b], issued = [?add, Join b, Part c]\<rparr>)"
        by (rule part_loop_done) simp
      finally show ?thesis .
    qed
  qed
  show ?thesis by (simp add: tick_def Let_def j p)
qed


theorem tick_scenario_witness:
  "tick (\<lambda>call. False) [exampleRow ''alice'', exampleRow ''bob'']
        \<lparr>channels = [''carol'', ''alice''], issued = []\<rparr> =
     (None, \<lparr>channels = [''alice'', ''bob''],
             issued = [AddUser ''tw-bob'' ''at'' ''rt'', Join ''bob'', Part ''carol'']\<rparr>)"
proof -
  have d: "''alice'' \<noteq> ''bob''" "''alice'' \<noteq> ''carol''" "''bob'' \<noteq> ''carol''"
    by simp_all
  have n: "twitchUsername (exampleRow ''alice'') = ''alice''"
    "twitchUsername (exampleRow ''bob'') = ''bob''"
    by (simp_all add: exampleRow_def)
  have f: "filter isActive [exampleRow ''alice'', exampleRow ''bob''] =
             [exampleRow ''alice'', exampleRow ''bob''] \<or>
           filter isActive [exampleRow ''alice'', exampleRow ''bob''] =
             [exampleRow ''bob'', exampleRow ''alice'']"
    by (simp add: exampleRow_def)
  have c: "[''carol'', ''alice''] = [''alice'', ''carol''] \<or>
           [''carol'', ''alice''] = [''carol'', ''alice'']"
    by simp
  have "tick (\<lambda>call. False) [exampleRow ''alice'', exampleRow ''bob'']
          \<lparr>channels = [''carol'', ''alice''], issued = []\<rparr> =
        (None, \<lparr>channels = [''alice'', ''bob''],
                issued = [AddUser (twitchUserId (exampleRow ''bob''))
                            (twitchAccessToken (exampleRow ''bob''))
                            (twitchRefreshToken (exampleRow ''bob'')),
                          Join ''bob'', Part ''carol'']\<rparr>)"
    by (rule tick_scenario[OF d n f c]) simp_all
  then show ?thesis by (simp add: exampleRow_def)
qed

text \<open>
  C3. The part call is awaited outside the \<open>try\<close> that guards the join path. With \<open>x\<close>
  active and the array \<open>[c, x, d]\<close>, a tick whose part of \<open>c\<close> fails ends there with the
  error: \<open>d\<close> is stale too, yet no part call is issued for it and the array is unchanged.
  The same tick with no failure parts both \<open>c\<close> and \<open>d\<close>.
\<close>

theorem part_failure_ends_tick:
  "tick (\<lambda>call. call = Part ''c'') [exampleRow ''x'']
        \<lparr>channels = [''c'', ''x'', ''d''], issued = []\<rparr> =
     (Some (RemoteError ''part''), \<lparr>channels = [''c'', ''x'', ''d''], issued = [Part ''c'']\<rparr>) \<and>
   tick (\<lambda>call. False) [exampleRow ''x'']
        \<lparr>channels = [''c'', ''x'', ''d''], issued = []\<rparr> =
     (None, \<lparr>channels = [''x''], issued = [Part ''c'', Part ''d'']\<rparr>)"
  by (simp add: tick_def exampleRow_def part_loop.simps issue_def splice1_def Let_def)

section \<open>The tenant session manager\<close>

lemma initialize_frame:
  "initialize g w = (r, w1) \<Longrightarrow>
     users w1 = users w \<and> googleInstances w1 = googleInstances w \<and> said w1 = said w"
  by (auto simp: initialize_def onAccount_def split: if_splits prod.splits)

text \<open>
  C8. \<open>getGoogleForUser\<close>: a cached session is returned as it is, with no effect. With none
  cached, a tenant that the store does not know or that has no linked credential gives
  \<open>null\<close>, and nothing is cached. With a credential, a failure of \<open>initialize\<close> is the
  failure of the call, the map still has no session for the tenant, and the next call runs
  \<open>initialize\<close> again, caching the session if that one succeeds.
\<close>

theorem getGoogleForUser_sessions:
  "(googleInstances w userId = Some g \<longrightarrow> getGoogleForUser userId w = (Inr (Some g), w)) \<and>
   (googleInstances w userId = None \<and>
      (find (\<lambda>u. user_id u = userId) (users w) = None \<or>
       (\<exists>u. find (\<lambda>u. user_id u = userId) (users w) = Some u \<and>
            \<not> truthyStr (googleRefreshToken u)))
      \<longrightarrow> getGoogleForUser userId w = (Inr None, w)) \<and>
   (googleInstances w userId = None \<and>
      find (\<lambda>u. user_id u = userId) (users w) = Some u \<and>
      truthyStr (googleRefreshToken u) \<and>
      initialize \<lparr>refreshToken = the (googleRefreshToken u),
                  requestsPlaylistName = playlistName u\<rparr> w = (Inl e, w1)
      \<longrightarrow> getGoogleForUser userId w = (Inl e, w1) \<and>
          googleInstances w1 userId = None \<and>
          getGoogleForUser userId w1 =
            (case initialize \<lparr>refreshToken = the (googleRefreshToken u),
                               requestsPlaylistName = playlistName u\<rparr> w1 of
               (Inl e', w2) \<Rightarrow> (Inl e', w2)
             | (Inr x, w2) \<Rightarrow>
                 (Inr (Some \<lparr>refreshToken = the (googleRefreshToken u),
                             requestsPlaylistName = playlistName u\<rparr>),
                  w2\<lparr>googleInstances := (googleInstances w2)(userId \<mapsto>
                       \<lparr>refreshToken = the (googleRefreshToken u),
                        requestsPlaylistName = playlistName u\<rparr>)\<rparr>)))"
proof (intro conjI impI)
  assume "googleInstances w userId = Some g"
  then show "getGoogleForUser userId w = (Inr (Some g), w)"
    by (simp add: getGoogleForUser_def)
next
  assume "googleInstances w userId = None \<and>
      (find (\<lambda>u. user_id u = userId) (users w) = None \<or>
       (\<exists>u. find (\<lambda>u. user_id u = userId) (users w) = Some u \<and>
            \<not> truthyStr (googleRefreshToken u)))"
  then show "getGoogleForUser userId w = (Inr None, w)"
    by (auto simp: getGoogleForUser_def)
next
  assume a: "googleInstances w userId = None \<and>
      find (\<lambda>u. user_id u = userId) (users w) = Some u \<and>
      truthyStr (googleRefreshToken u) \<and>
      initialize \<lparr>refreshToken = the (googleRefreshToken u),
                  requestsPlaylistName = playlistName u\<rparr> w = (Inl e, w1)"
  then show "getGoogleForUser userId w = (Inl e, w1)"
    by (simp add: getGoogleForUser_def)
  from a have fr: "users w1 = users w" "googleInstances w1 = googleInstances w"
    using initialize_frame by blast+
  with a show "googleInstances w1 userId = None" by simp
  from a fr show "getGoogleForUser userId w1 =
            (case initialize \<lparr>refreshToken = the (googleRefreshToken u),
                               requestsPlaylistName = playlistName u\<rparr> w1 of
               (Inl e', w2) \<Rightarrow> (Inl e', w2)
             | (Inr x, w2) \<Rightarrow>
                 (Inr (Some \<lparr>refreshToken = the (googleRefreshToken u),
                             requestsPlaylistName = playlistName u\<rparr>),
                  w2\<lparr>googleInstances := (googleInstances w2)(userId \<mapsto>
                       \<lparr>refreshToken = the (googleRefreshToken u),
                        requestsPlaylistName = playlistName u\<rparr>)\<rparr>))"
    by (simp add: getGoogleForUser_def Let_def)
qed

theorem getGoogleForUser_sessions_witness:
  "getGoogleForUser ''id-x'' (exampleWorld\<lparr>googleInstances := [''id-x'' \<mapsto> exampleGoogle]\<rparr>) =
     (Inr (Some exampleGoogle), exampleWorld\<lparr>googleInstances := [''id-x'' \<mapsto> exampleGoogle]\<rparr>) \<and>
   getGoogleForUser ''id-y'' exampleWorld = (Inr None, exampleWorld) \<and>
   getGoogleForUser ''id-x'' exampleWorld =
     (Inl (RemoteError ''ytmusic.initialize''), exampleWorld) \<and>
   googleInstances exampleWorld ''id-x'' = None"
proof -
  let ?ux = "(exampleRow ''x'')\<lparr>googleRefreshToken := Some ''g-x''\<rparr>"
  have a: "googleInstances (exampleWorld\<lparr>googleInstances := [''id-x'' \<mapsto> exampleGoogle]\<rparr>) ''id-x'' = Some exampleGoogle"
    by simp
  have b: "googleInstances exampleWorld ''id-y'' = None \<and>
      (find (\<lambda>u. user_id u = ''id-y'') (users exampleWorld) = None \<or>
       (\<exists>u. find (\<lambda>u. user_id u = ''id-y'') (users exampleWorld) = Some u \<and>
            \<not> truthyStr (googleRefreshToken u)))"
    by (simp add: exampleWorld_def exampleRow_def truthyStr_def)
  have c: "googleInstances exampleWorld ''id-x'' = None \<and>
      find (\<lambda>u. user_id u = ''id-x'') (users exampleWorld) = Some ?ux \<and>
      truthyStr (googleRefreshToken ?ux) \<and>
      initialize \<lparr>refreshToken = the (googleRefreshToken ?ux),
                  requestsPlaylistName = playlistName ?ux\<rparr> exampleWorld =
        (Inl (RemoteError ''ytmusic.initialize''), exampleWorld)"
    by (simp add: exampleWorld_def exampleRow_def truthyStr_def initialize_def)
  note t1 = getGoogleForUser_sessions[of "exampleWorld\<lparr>googleInstances := [''id-x'' \<mapsto> exampleGoogle]\<rparr>"
      "''id-x''" exampleGoogle, THEN conjunct1, THEN mp, OF a]
  note t2 = getGoogleForUser_sessions[of exampleWorld "''id-y''",
      THEN conjunct2, THEN conjunct1, THEN mp, OF b]
  note t3 = getGoogleForUser_sessions[of exampleWorld "''id-x''" _ ?ux
      "RemoteError ''ytmusic.initialize''" exampleWorld,
      THEN conjunct2, THEN conjunct2, THEN mp, OF c]
  from t1 t2 t3 show ?thesis by blast
qed

section \<open>The command dispatcher\<close>













text \<open>
  C7. A message whose text is the skip command, in any case of its letters, from a user who
  is neither moderator nor broadcaster, leaves the whole state as it was: no reply is sent,
  no session is looked up or created, and no call reaches the remote account.
\<close>

theorem skip_unprivileged_silent:
  assumes "toLowerCase text = ''!skip''" and "\<not> isMod info" and "\<not> isBroadcaster info"
  shows "onMessage compareTwoStrings channel user text info w = w"
  using assms
  by (simp add: onMessage_def handleRequest_def handleNowPlaying_def handleSkip_def
      startsWith_def Let_def split: option.splits)

theorem skip_unprivileged_silent_witness:
  "toLowerCase ''!Skip'' = ''!skip'' \<and>
   onMessage exampleCompare ''#x'' ''viewer'' ''!Skip''
     \<lparr>isMod = False, isBroadcaster = False\<rparr> exampleWorld = exampleWorld"
proof -
  have l: "toLowerCase ''!Skip'' = ''!skip''"
    by (simp add: toLowerCase_def toLowerChar_def)
  have m: "\<not> isMod \<lparr>isMod = False, isBroadcaster = False\<rparr>"
    "\<not> isBroadcaster \<lparr>isMod = False, isBroadcaster = False\<rparr>"
    by simp_all
  from l skip_unprivileged_silent[OF l m] show ?thesis by blast
qed




section \<open>The match resolver: ranking\<close>




lemma filterE_Inr: "filterE f xs = Inr ys \<Longrightarrow> ys = filter (\<lambda>x. f x = Inr True) xs"
  by (induction xs arbitrary: ys) (auto split: sum.splits if_splits)







lemma mapE_named_raw:
  "\<forall>n \<in> set ns. n \<noteq> [] \<Longrightarrow>
   mapE (\<lambda>a. case a of JStr s \<Rightarrow> Inr a
                | _ \<Rightarrow> (case getProp a ''name'' of Inl e \<Rightarrow> Inl e
                         | Inr n \<Rightarrow> Inr (if truthy n then n else JStr ''Unknown Artist'')))
        (map namedArtist ns) =
     Inr (map JStr ns)"
  by (induction ns) (auto simp: namedArtist_def)


lemma filter_truthy_strings: "\<forall>n \<in> set ns. n \<noteq> [] \<Longrightarrow> filter truthy (map JStr ns) = map JStr ns"
  by (induction ns) auto



lemma extractArtists_nonempty: "extractArtists s = Inr as \<Longrightarrow> as \<noteq> []"
  by (auto simp: extractArtists_def split: sum.splits if_splits)

lemma songPick_artists: "songPick s = Inr p \<Longrightarrow> extractArtists s = Inr (artists p)"
  by (auto simp: songPick_def split: sum.splits if_splits)

lemma mapE_fst:
  "mapE (\<lambda>s. case h s of Inl e \<Rightarrow> Inl e | Inr y \<Rightarrow> Inr (s, c y)) xs = Inr ps \<Longrightarrow> map fst ps = xs"
  by (induction xs arbitrary: ps) (auto split: sum.splits)

lemma ranked_members: "ranked cmp query songs = Inr rs \<Longrightarrow> fst ` set rs \<subseteq> set songs"
proof -
  assume a: "ranked cmp query songs = Inr rs"
  then obtain ps where ps:
    "mapE (\<lambda>s. case haystack s of Inl e \<Rightarrow> Inl e
              | Inr hay \<Rightarrow> Inr (s, cmp (toLowerCase query) hay)) songs = Inr ps"
    "rs = sort_key (\<lambda>p. - snd p) ps"
    by (auto simp: ranked_def split: sum.splits)
  have "map fst ps = songs" using ps(1) by (rule mapE_fst)
  then have "fst ` set ps = set songs" by (metis set_map)
  with ps(2) show ?thesis by simp
qed

lemma searchBestMatch_pick:
  assumes "searchBestMatch cmp search query = Inr (Some p)"
  shows "\<exists>results s. search query = Inr results \<and> s \<in> set results \<and>
           isSong s = Inr True \<and> songPick s = Inr p"
proof -
  from assms obtain results songs rs top0 score rest where
    h: "search query = Inr results" "filterE isSong results = Inr songs"
       "ranked cmp query songs = Inr rs" "rs = (top0, score) # rest" "songPick top0 = Inr p"
    by (auto simp: searchBestMatch_def split: sum.splits if_splits list.splits)
  have "top0 \<in> fst ` set rs" using h(4) by force
  then have "top0 \<in> set songs" using ranked_members[OF h(3)] by blast
  then have "top0 \<in> set results \<and> isSong top0 = Inr True"
    using filterE_Inr[OF h(2)] by simp
  with h show ?thesis by blast
qed

text \<open>
  C9. A pick returned by \<open>searchBestMatch\<close> has at least one artist, and its artist list is
  what \<open>extractArtists\<close> gives for one of the search results. \<open>extractArtists\<close> never
  gives an empty list. It reads an array of named artist objects as their names, and, where
  there is no \<open>artists\<close> array, a single named artist object or a single artist string as
  that one name; where neither field holds anything, and whenever the three shapes yield
  nothing, the list is the one placeholder \<open>Unknown Artist\<close>.
\<close>

theorem artists_never_empty:
  "(searchBestMatch cmp search query = Inr (Some p) \<longrightarrow>
      artists p \<noteq> [] \<and>
      (\<exists>results s. search query = Inr results \<and> s \<in> set results \<and>
         extractArtists s = Inr (artists p))) \<and>
   (extractArtists s = Inr as \<longrightarrow> as \<noteq> []) \<and>
   (getProp s ''artists'' = Inr (JArr (map namedArtist ns)) \<and> ns \<noteq> [] \<and>
    (\<forall>n \<in> set ns. n \<noteq> []) \<longrightarrow> extractArtists s = Inr (map JStr ns)) \<and>
   (getProp s ''artists'' = Inr a0 \<and> \<not> truthy a0 \<and>
    getProp s ''artist'' = Inr (namedArtist n) \<and> n \<noteq> [] \<longrightarrow>
      extractArtists s = Inr [JStr n]) \<and>
   (getProp s ''artists'' = Inr a0 \<and> \<not> truthy a0 \<and>
    getProp s ''artist'' = Inr (JStr n) \<and> n \<noteq> [] \<longrightarrow>
      extractArtists s = Inr [JStr n]) \<and>
   (getProp s ''artists'' = Inr a0 \<and> \<not> truthy a0 \<and>
    getProp s ''artist'' = Inr a1 \<and> \<not> truthy a1 \<longrightarrow>
      extractArtists s = Inr [JStr ''Unknown Artist'']) \<and>
   (rawArtists s = Inr [] \<longrightarrow> extractArtists s = Inr [JStr ''Unknown Artist''])"
proof (intro conjI impI)
  assume a: "searchBestMatch cmp search query = Inr (Some p)"
  then obtain results s0 where s0: "search query = Inr results" "s0 \<in> set results"
    "songPick s0 = Inr p"
    using searchBestMatch_pick by blast
  then have e: "extractArtists s0 = Inr (artists p)" using songPick_artists by blast
  then show "artists p \<noteq> []" by (rule extractArtists_nonempty)
  from s0 e show "\<exists>results s. search query = Inr results \<and> s \<in> set results \<and>
         extractArtists s = Inr (artists p)" by blast
next
  assume "extractArtists s = Inr as"
  then show "as \<noteq> []" by (rule extractArtists_nonempty)
next
  assume "getProp s ''artists'' = Inr (JArr (map namedArtist ns)) \<and> ns \<noteq> [] \<and>
    (\<forall>n \<in> set ns. n \<noteq> [])"
  then show "extractArtists s = Inr (map JStr ns)"
    by (simp add: extractArtists_def rawArtists_def mapE_named_raw filter_truthy_strings)
next
  assume "getProp s ''artists'' = Inr a0 \<and> \<not> truthy a0 \<and>
    getProp s ''artist'' = Inr (namedArtist n) \<and> n \<noteq> []"
  then show "extractArtists s = Inr [JStr n]"
    by (simp add: extractArtists_def rawArtists_def namedArtist_def)
next
  assume "getProp s ''artists'' = Inr a0 \<and> \<not> truthy a0 \<and>
    getProp s ''artist'' = Inr (JStr n) \<and> n \<noteq> []"
  then show "extractArtists s = Inr [JStr n]"
    by (simp add: extractArtists_def rawArtists_def)
next
  assume "getProp s ''artists'' = Inr a0 \<and> \<not> truthy a0 \<and>
    getProp s ''artist'' = Inr a1 \<and> \<not> truthy a1"
  then show "extractArtists s = Inr [JStr ''Unknown Artist'']"
    by (simp add: extractArtists_def rawArtists_def)
next
  assume "rawArtists s = Inr []"
  then show "extractArtists s = Inr [JStr ''Unknown Artist'']"
    by (simp add: extractArtists_def)
qed

lemma ex_eval:
  "searchBestMatch exampleCompare exampleSearch ''hello'' =
     Inr (Some \<lparr>title = JStr ''Hello'', artists = [JStr ''Adele''],
                videoId = JStr ''YQHsXMglC9A'', duration = JUndefined\<rparr>)"
  by code_simp



theorem artists_never_empty_witness:
  "searchBestMatch exampleCompare exampleSearch ''hello'' =
     Inr (Some \<lparr>title = JStr ''Hello'', artists = [JStr ''Adele''],
                videoId = JStr ''YQHsXMglC9A'', duration = JUndefined\<rparr>) \<and>
   artists \<lparr>title = JStr ''Hello'', artists = [JStr ''Adele''],
            videoId = JStr ''YQHsXMglC9A'', duration = JUndefined\<rparr> \<noteq> [] \<and>
   extractArtists (exampleResults ! 0) = Inr [JStr ''Adele''] \<and>
   extractArtists (exampleResults ! 2) = Inr [JStr ''Lionel Richie''] \<and>
   extractArtists (JObj [(''artist'', namedArtist ''Adele'')]) = Inr [JStr ''Adele''] \<and>
   extractArtists (exampleResults ! 1) = Inr [JStr ''Unknown Artist'']"
proof -
  let ?p = "\<lparr>title = JStr ''Hello'', artists = [JStr ''Adele''],
             videoId = JStr ''YQHsXMglC9A'', duration = JUndefined\<rparr>"
  have e: "searchBestMatch exampleCompare exampleSearch ''hello'' = Inr (Some ?p)"
    by (rule ex_eval)
  note t = artists_never_empty[of exampleCompare exampleSearch "''hello''" ?p]
  have a: "artists ?p \<noteq> []"
    using t[of "exampleResults ! 0", THEN conjunct1, THEN mp, OF e] by blast
  have h1: "getProp (exampleResults ! 0) ''artists'' = Inr (JArr (map namedArtist [''Adele''])) \<and>
            [''Adele''] \<noteq> [] \<and> (\<forall>n \<in> set [''Adele'']. n \<noteq> [])"
    by (simp add: exampleResults_def)
  have b: "extractArtists (exampleResults ! 0) = Inr [JStr ''Adele'']"
    using artists_never_empty[of exampleCompare exampleSearch "''hello''" ?p
        "exampleResults ! 0" _ "[''Adele'']",
        THEN conjunct2, THEN conjunct2, THEN conjunct1, THEN mp, OF h1] by simp
  have h2: "getProp (exampleResults ! 2) ''artists'' = Inr JUndefined \<and> \<not> truthy JUndefined \<and>
            getProp (exampleResults ! 2) ''artist'' = Inr (JStr ''Lionel Richie'') \<and>
            ''Lionel Richie'' \<noteq> []"
    by (simp add: exampleResults_def)
  have c: "extractArtists (exampleResults ! 2) = Inr [JStr ''Lionel Richie'']"
    using artists_never_empty[of exampleCompare exampleSearch "''hello''" ?p
        "exampleResults ! 2" _ _ JUndefined "''Lionel Richie''",
        THEN conjunct2, THEN conjunct2, THEN conjunct2, THEN conjunct2, THEN conjunct1,
        THEN mp, OF h2] .
  have h3: "getProp (JObj [(''artist'', namedArtist ''Adele'')]) ''artists'' = Inr JUndefined \<and>
            \<not> truthy JUndefined \<and>
            getProp (JObj [(''artist'', namedArtist ''Adele'')]) ''artist'' =
              Inr (namedArtist ''Adele'') \<and> ''Adele'' \<noteq> []"
    by simp
  have d: "extractArtists (JObj [(''artist'', namedArtist ''Adele'')]) = Inr [JStr ''Adele'']"
    using artists_never_empty[of exampleCompare exampleSearch "''hello''" ?p
        "JObj [(''artist'', namedArtist ''Adele'')]" _ _ JUndefined "''Adele''",
        THEN conjunct2, THEN conjunct2, THEN conjunct2, THEN conjunct1, THEN mp, OF h3] .
  have h4: "getProp (exampleResults ! 1) ''artists'' = Inr JUndefined \<and> \<not> truthy JUndefined \<and>
            getProp (exampleResults ! 1) ''artist'' = Inr JUndefined \<and> \<not> truthy JUndefined"
    by (simp add: exampleResults_def)
  have f: "extractArtists (exampleResults ! 1) = Inr [JStr ''Unknown Artist'']"
    using artists_never_empty[of exampleCompare exampleSearch "''hello''" ?p
        "exampleResults ! 1" _ _ JUndefined _ JUndefined,
        THEN conjunct2, THEN conjunct2, THEN conjunct2, THEN conjunct2, THEN conjunct2,
        THEN conjunct1, THEN mp, OF h4] .
  from e a b c d f show ?thesis by blast
qed




section \<open>The match resolver: direct links\<close>











































end
